theory Spec2Isabelle
  imports Complex_Main "HOL-Library.Multiset"
begin

section \<open>JavaScript numbers\<close>

text \<open>
  A JavaScript number is modelled as a real or \<open>NaN\<close>. \<open>NaN\<close> is kept, since the code
  produces it (\<open>0 / 0\<close>, arithmetic on \<open>undefined\<close>) and since every comparison with it
  is false. The infinities and the sign of zero are not modelled.

  Feature extraction and the distance are modelled in exact arithmetic: the
  statements about them are statements of exact arithmetic, and the statements about
  the search are relative to the distances so computed. The similarity is modelled in
  the arithmetic of the machine (binary64, rounding to nearest, ties to even), since
  the digits that \<open>toFixed\<close> reports depend on the rounding.
\<close>

datatype jsnum = Num real | NaN

type_synonym vec = "jsnum list"

fun is_number :: "jsnum \<Rightarrow> bool" where
  "is_number (Num r) = True"
| "is_number NaN = False"

text \<open>The real that a number is; used only where the number is not \<open>NaN\<close>.\<close>

fun num_of :: "jsnum \<Rightarrow> real" where
  "num_of (Num r) = r"
| "num_of NaN = 0"

fun js_add :: "jsnum \<Rightarrow> jsnum \<Rightarrow> jsnum" where
  "js_add (Num a) (Num b) = Num (a + b)"
| "js_add _ _ = NaN"

fun js_sub :: "jsnum \<Rightarrow> jsnum \<Rightarrow> jsnum" where
  "js_sub (Num a) (Num b) = Num (a - b)"
| "js_sub _ _ = NaN"

text \<open>
  Rounding of a real to binary64: the integer nearest to a real, the even one of two,
  and the nearest multiple of the unit in the last place, which is \<open>2 ^ (e - 52)\<close> for
  a number from \<open>2 ^ e\<close> up to \<open>2 ^ (e + 1)\<close> and \<open>2 ^ - 1074\<close> below
  \<open>2 ^ - 1022\<close>. Overflow is not modelled. In the similarity it can only be one of
  the product \<open>100 * x\<close> towards minus infinity, which \<open>Math.max(0, x)\<close> turns into 0 as
  it does the large negative number of the model.
\<close>

definition round_half_even :: "real \<Rightarrow> int" where
  "round_half_even y =
     (let n = \<lfloor>y\<rfloor>; r = y - of_int n
      in if r < 1 / 2 then n else if 1 / 2 < r then n + 1 else if even n then n else n + 1)"

definition double_exponent :: "real \<Rightarrow> int" where
  "double_exponent x = max \<lfloor>log 2 \<bar>x\<bar>\<rfloor> (- 1022)"

definition double_ulp :: "real \<Rightarrow> real" where
  "double_ulp x = 2 powr real_of_int (double_exponent x - 52)"

definition round_double :: "real \<Rightarrow> real" where
  "round_double x =
     (if x = 0 then 0 else real_of_int (round_half_even (x / double_ulp x)) * double_ulp x)"

text \<open>The operations \<open>x - y\<close>, \<open>x * y\<close> and \<open>x / y\<close> of the machine, \<open>y\<close> not zero.\<close>

fun double_sub :: "jsnum \<Rightarrow> jsnum \<Rightarrow> jsnum" where
  "double_sub (Num a) (Num b) = Num (round_double (a - b))"
| "double_sub _ _ = NaN"

fun double_mul :: "jsnum \<Rightarrow> jsnum \<Rightarrow> jsnum" where
  "double_mul (Num a) (Num b) = Num (round_double (a * b))"
| "double_mul _ _ = NaN"

fun double_div_const :: "jsnum \<Rightarrow> real \<Rightarrow> jsnum" where
  "double_div_const (Num a) d = Num (round_double (a / d))"
| "double_div_const NaN d = NaN"

text \<open>
  \<open>count / seqLen\<close> for two non-negative integers. In JavaScript \<open>0 / 0\<close> is \<open>NaN\<close>
  and \<open>c / 0\<close> with \<open>c > 0\<close> is \<open>Infinity\<close>; the latter is outside \<open>jsnum\<close> and never
  arises where this function is used, since a count of characters of a sequence of
  length 0 is 0 (lemmas \<open>aaCounts_le_length\<close> and \<open>groupCount_le_length\<close>).
\<close>

definition js_div_count :: "nat \<Rightarrow> nat \<Rightarrow> jsnum" where
  "js_div_count c n = (if n = 0 then NaN else Num (real c / real n))"

text \<open>\<open>Math.pow(x, 2)\<close>, \<open>Math.sqrt(x)\<close>, \<open>Math.max(0, x)\<close> and \<open>Math.log1p(n)\<close>.\<close>

fun Math_pow2 :: "jsnum \<Rightarrow> jsnum" where
  "Math_pow2 (Num a) = Num (a ^ 2)"
| "Math_pow2 NaN = NaN"

fun Math_sqrt :: "jsnum \<Rightarrow> jsnum" where
  "Math_sqrt (Num a) = (if a < 0 then NaN else Num (sqrt a))"
| "Math_sqrt NaN = NaN"

fun Math_max0 :: "jsnum \<Rightarrow> jsnum" where
  "Math_max0 (Num a) = Num (max 0 a)"
| "Math_max0 NaN = NaN"

definition Math_log1p :: "nat \<Rightarrow> jsnum" where
  "Math_log1p n = Num (ln (1 + real n))"

text \<open>The comparisons \<open>x >= 0\<close>, \<open>x <= y\<close> and \<open>x == y\<close> of JavaScript: false on \<open>NaN\<close>.\<close>

fun js_le :: "jsnum \<Rightarrow> jsnum \<Rightarrow> bool" where
  "js_le (Num a) (Num b) = (a \<le> b)"
| "js_le _ _ = False"

fun js_eq :: "jsnum \<Rightarrow> jsnum \<Rightarrow> bool" where
  "js_eq (Num a) (Num b) = (a = b)"
| "js_eq _ _ = False"

text \<open>The sum of the elements of an array, added from the left starting at 0.\<close>

definition js_sum :: "vec \<Rightarrow> jsnum" where
  "js_sum xs = fold (\<lambda>x acc. js_add acc x) xs (Num 0)"

section \<open>Feature extraction\<close>

text \<open>
  A string is the list of its characters, and its \<open>length\<close> the length of that list.
  Iterating over a string (\<open>for ... of\<close>) and splitting it (\<open>split('')\<close>) both visit the
  characters in order.
\<close>

definition aminoAcids :: string where
  "aminoAcids = ''ACDEFGHIKLMNPQRSTVWY''"

text \<open>
  \<open>aaCounts\<close> is an object with one own property per amino acid, initialised to 0
  (line 16); the loop of lines 18 to 22 increments the property of each character of
  the sequence that is an own property, and skips every other character.
\<close>

definition aaCounts_init :: "char \<rightharpoonup> nat" where
  "aaCounts_init = fold (\<lambda>aa m. m(aa \<mapsto> 0)) aminoAcids Map.empty"

definition aaCounts_step :: "char \<Rightarrow> (char \<rightharpoonup> nat) \<Rightarrow> (char \<rightharpoonup> nat)" where
  "aaCounts_step aa m = (case m aa of Some n \<Rightarrow> m(aa \<mapsto> n + 1) | None \<Rightarrow> m)"

definition aaCounts :: "string \<Rightarrow> (char \<rightharpoonup> nat)" where
  "aaCounts sequence = fold aaCounts_step sequence aaCounts_init"

text \<open>\<open>aaCounts[aa] / seqLen\<close>; a missing property reads as \<open>undefined\<close>, whose quotient is \<open>NaN\<close>.\<close>

definition aaFraction :: "(char \<rightharpoonup> nat) \<Rightarrow> nat \<Rightarrow> char \<Rightarrow> jsnum" where
  "aaFraction counts seqLen aa =
     (case counts aa of Some c \<Rightarrow> js_div_count c seqLen | None \<Rightarrow> NaN)"

text \<open>\<open>sequence.split('').filter(aa => group.includes(aa)).length\<close>\<close>

definition groupCount :: "string \<Rightarrow> string \<Rightarrow> nat" where
  "groupCount grp sequence = length (filter (\<lambda>aa. aa \<in> set grp) sequence)"

definition extractFeaturesFast :: "string \<Rightarrow> vec" where
  "extractFeaturesFast sequence =
     (let seqLen = length sequence;
          counts = aaCounts sequence;
          hydrophobic = groupCount ''AILMFVPWG'' sequence;
          positive = groupCount ''KRH'' sequence;
          negative = groupCount ''DE'' sequence;
          polar = groupCount ''STNQ'' sequence;
          aromatic = groupCount ''FWY'' sequence;
          small = groupCount ''AGSV'' sequence
      in [Math_log1p seqLen]
         @ map (aaFraction counts seqLen) aminoAcids
         @ [js_div_count hydrophobic seqLen,
            js_div_count positive seqLen,
            js_div_count negative seqLen,
            js_div_count polar seqLen,
            js_div_count aromatic seqLen,
            js_div_count small seqLen])"

section \<open>Euclidean distance\<close>

text \<open>
  \<open>b[i]\<close> beyond the end of the array \<open>b\<close> is \<open>undefined\<close>, and \<open>a[i] - undefined\<close>
  is \<open>NaN\<close>. The loop runs over the indices of \<open>a\<close> only.
\<close>

definition js_at :: "vec \<Rightarrow> nat \<Rightarrow> jsnum" where
  "js_at b i = (if i < length b then b ! i else NaN)"

definition euclideanDistance :: "vec \<Rightarrow> vec \<Rightarrow> jsnum" where
  "euclideanDistance a b =
     Math_sqrt (fold (\<lambda>i sum. js_add sum (Math_pow2 (js_sub (a ! i) (js_at b i))))
                     [0..<length a] (Num 0))"

section \<open>The corpus\<close>

text \<open>
  A row of table \<open>proteins\<close>. The column \<open>id\<close> is named \<open>protein_id\<close> here. The column
  \<open>features\<close> holds the array that \<open>JSON.parse\<close> yields from the stored text, an array
  of numbers by the schema of the corpus. The table is the list of its rows in storage
  order, the order in which a \<open>SELECT\<close> without \<open>ORDER BY\<close> scans it.
\<close>

record entry =
  protein_id :: int
  protein_name :: string
  sequence :: string
  organism :: string
  description :: string

record row = entry +
  seq_length :: int
  features :: vec

text \<open>\<open>LIMIT n\<close> of SQLite: a negative \<open>n\<close> is no limit.\<close>

definition sql_limit :: "int \<Rightarrow> 'a list \<Rightarrow> 'a list" where
  "sql_limit n xs = (if n < 0 then xs else take (nat n) xs)"

text \<open>\<open>SELECT ... FROM proteins LIMIT ?\<close>\<close>

definition select_limit :: "row list \<Rightarrow> int \<Rightarrow> row list" where
  "select_limit proteins maxScan = sql_limit maxScan proteins"

text \<open>
  \<open>SELECT ... FROM proteins WHERE seq_length BETWEEN ? AND ? LIMIT 100000\<close>. The query
  has no \<open>ORDER BY\<close>, so the database returns the matching rows in an order of its
  choice: storage order when it scans the table, order of length when it scans an index
  on \<open>seq_length\<close>. That choice is the function \<open>order\<close>, which rearranges the list of
  the matching rows (\<open>is_scan_order\<close>); \<open>LIMIT\<close> cuts the rearranged list.
\<close>

definition is_scan_order :: "(row list \<Rightarrow> row list) \<Rightarrow> bool" where
  "is_scan_order order \<longleftrightarrow> (\<forall>rows. mset (order rows) = mset rows)"

definition select_between ::
  "(row list \<Rightarrow> row list) \<Rightarrow> row list \<Rightarrow> int \<Rightarrow> int \<Rightarrow> row list" where
  "select_between order proteins minLength maxLength =
     sql_limit 100000
       (order (filter (\<lambda>p. minLength \<le> seq_length p \<and> seq_length p \<le> maxLength) proteins))"

section \<open>Scoring, sorting and truncation\<close>

record scored = entry +
  distance :: jsnum

text \<open>The body of the loop of lines 97 to 109 (and 154 to 166).\<close>

definition score :: "vec \<Rightarrow> row \<Rightarrow> scored" where
  "score scaledFeatures protein =
     \<lparr>protein_id = protein_id protein,
      protein_name = protein_name protein,
      sequence = sequence protein,
      organism = organism protein,
      description = description protein,
      distance = euclideanDistance scaledFeatures (features protein)\<rparr>"

text \<open>The comparator \<open>(a, b) => a.distance - b.distance\<close>.\<close>

definition by_distance :: "scored \<Rightarrow> scored \<Rightarrow> jsnum" where
  "by_distance a b = js_sub (distance a) (distance b)"

text \<open>
  \<open>Array.prototype.sort\<close> is a stable sort: \<open>b\<close> goes before \<open>a\<close> only where the
  comparator's result on \<open>(a, b)\<close> is greater than 0, and a result \<open>NaN\<close> counts as 0.
  For a comparator that is a consistent order the result is the one stable sorted
  permutation, which the insertion sort below computes. For any other comparator
  (here: when a distance is \<open>NaN\<close>) the language leaves the order to the
  implementation; the order of the model then need not be the one of a given engine,
  and no statement below is about that case.
\<close>

fun js_gt0 :: "jsnum \<Rightarrow> bool" where
  "js_gt0 (Num r) = (0 < r)"
| "js_gt0 NaN = False"

fun js_insort :: "('a \<Rightarrow> 'a \<Rightarrow> jsnum) \<Rightarrow> 'a \<Rightarrow> 'a list \<Rightarrow> 'a list" where
  "js_insort cmp x [] = [x]"
| "js_insort cmp x (y # ys) =
     (if js_gt0 (cmp x y) then y # js_insort cmp x ys else x # y # ys)"

definition js_sort :: "('a \<Rightarrow> 'a \<Rightarrow> jsnum) \<Rightarrow> 'a list \<Rightarrow> 'a list" where
  "js_sort cmp xs = foldr (js_insort cmp) xs []"

text \<open>
  \<open>xs.slice(0, e)\<close> for an integer \<open>e\<close>: a negative \<open>e\<close> counts from the end of the
  array.
\<close>

definition js_slice0 :: "int \<Rightarrow> 'a list \<Rightarrow> 'a list" where
  "js_slice0 e xs =
     (if e < 0 then take (nat (int (length xs) + e)) xs else take (nat e) xs)"

text \<open>Lines 97 to 112 (and 154 to 169): the value of the variable \<open>topResults\<close>.\<close>

definition topResults :: "vec \<Rightarrow> row list \<Rightarrow> int \<Rightarrow> scored list" where
  "topResults scaledFeatures proteins topN =
     (let distances = map (score scaledFeatures) proteins
      in js_slice0 topN (js_sort by_distance distances))"

section \<open>Result shaping\<close>

text \<open>
  \<open>x.toFixed(f)\<close> in exact arithmetic. \<open>Fixed neg f n\<close> stands for the decimal numeral
  with \<open>f\<close> fractional digits of \<open>n / 10 ^ f\<close>, after a minus sign if \<open>neg\<close>: \<open>n\<close> is the
  integer nearest to \<open>|x| * 10 ^ f\<close>, the larger one of two. \<open>FixedExp x\<close> stands for
  the exponent notation of an \<open>x\<close> from \<open>10 ^ 21\<close> on, and \<open>FixedNaN\<close> for the
  text \<open>NaN\<close>.
\<close>

datatype fixedstr = FixedNaN | FixedExp real | Fixed bool nat nat

definition toFixed :: "nat \<Rightarrow> jsnum \<Rightarrow> fixedstr" where
  "toFixed f x =
     (case x of
        NaN \<Rightarrow> FixedNaN
      | Num r \<Rightarrow>
          if 10 ^ 21 \<le> \<bar>r\<bar> then FixedExp r
          else Fixed (r < 0) f (nat \<lfloor>\<bar>r\<bar> * 10 ^ f + 1 / 2\<rfloor>))"


text \<open>\<open>s + '%'\<close>\<close>

datatype percent = Percent fixedstr


text \<open>
  A search result. The fields \<open>organism\<close>, \<open>description\<close>, \<open>distance\<close> and \<open>sequence\<close>
  of the source carry the prefix \<open>res_\<close> here, and a \<open>searchTime\<close> of \<open>None\<close> is
  \<open>undefined\<close>.
\<close>

record result =
  rank :: nat
  protein :: string
  res_organism :: string
  res_description :: string
  similarity :: percent
  res_distance :: fixedstr
  res_sequence :: string
  searchTime :: "int option"

text \<open>Line 117 (and 174), in the arithmetic of the machine.\<close>

definition similarity_of :: "jsnum \<Rightarrow> jsnum" where
  "similarity_of d =
     Math_max0 (double_mul (Num 100) (double_sub (Num 1) (double_div_const d 10)))"

text \<open>The callback of \<open>topResults.map\<close>, lines 116 to 129 (and 173 to 186).\<close>

definition shape :: "int \<Rightarrow> scored \<Rightarrow> nat \<Rightarrow> result" where
  "shape searchTime' item index =
     (let similarity' = similarity_of (distance item)
      in \<lparr>rank = index + 1,
          protein = protein_name item,
          res_organism = organism item,
          res_description = description item,
          similarity = Percent (toFixed 2 similarity'),
          res_distance = toFixed 4 (distance item),
          res_sequence = sequence item,
          searchTime = (if index = 0 then Some searchTime' else None)\<rparr>)"

text \<open>\<open>xs.map((item, index) => f(item, index))\<close>\<close>

definition js_map_index :: "('a \<Rightarrow> nat \<Rightarrow> 'b) \<Rightarrow> 'a list \<Rightarrow> 'b list" where
  "js_map_index f xs = map (\<lambda>(item, index). f item index) (zip xs [0..<length xs])"

text \<open>
  Lines 97 to 129 (and 154 to 186), the text that the two searches share: from the
  candidates read from the table to the results.
\<close>

definition searchCandidates :: "int \<Rightarrow> vec \<Rightarrow> row list \<Rightarrow> int \<Rightarrow> result list" where
  "searchCandidates searchTime' scaledFeatures proteins topN =
     js_map_index (shape searchTime') (topResults scaledFeatures proteins topN)"

section \<open>The two searches\<close>

datatype error = Error string | TypeError string | ScalerError string

text \<open>
  The four readings of \<open>Date.now()\<close> during one prediction, in milliseconds: at the
  start of \<open>predictProtein\<close>, at the start and at the end of the search, and at the end
  of \<open>predictProtein\<close>.
\<close>

record clock =
  totalStart :: int
  searchStart :: int
  searchEnd :: int
  totalEnd :: int

text \<open>A parameter that the caller leaves out takes its default.\<close>

definition or_default :: "'a \<Rightarrow> 'a option \<Rightarrow> 'a" where
  "or_default d x = (case x of None \<Rightarrow> d | Some v \<Rightarrow> v)"

text \<open>
  The variable \<open>db\<close> of the module is \<open>None\<close> while it is \<open>null\<close>, and the table of the
  open database otherwise. The search by window takes the order of the database's scan
  as one more argument.
\<close>

definition findNearestNeighbors ::
  "row list option \<Rightarrow> clock \<Rightarrow> vec \<Rightarrow> int option \<Rightarrow> int option \<Rightarrow> error + result list" where
  "findNearestNeighbors db clk scaledFeatures topN' maxScan' =
     (let topN = or_default 5 topN'; maxScan = or_default 50000 maxScan'
      in case db of
           None \<Rightarrow> Inl (Error ''Base de datos no conectada'')
         | Some table \<Rightarrow>
             let startTime = searchStart clk;
                 proteins = select_limit table maxScan;
                 searchTime' = searchEnd clk - startTime
             in Inr (searchCandidates searchTime' scaledFeatures proteins topN))"

text \<open>The bounds of the window of lengths, lines 139 and 140, in exact arithmetic.\<close>

definition minLength :: "nat \<Rightarrow> int" where
  "minLength inputLength' = \<lfloor>real inputLength' * 0.8\<rfloor>"

definition maxLength :: "nat \<Rightarrow> int" where
  "maxLength inputLength' = \<lceil>real inputLength' * 1.2\<rceil>"

definition findNearestNeighborsFast ::
  "(row list \<Rightarrow> row list) \<Rightarrow> row list option \<Rightarrow> clock \<Rightarrow> vec \<Rightarrow> int option \<Rightarrow> nat
     \<Rightarrow> error + result list" where
  "findNearestNeighborsFast order db clk scaledFeatures topN' inputLength' =
     (let topN = or_default 5 topN'
      in case db of
           None \<Rightarrow> Inl (Error ''Base de datos no conectada'')
         | Some table \<Rightarrow>
             let startTime = searchStart clk;
                 proteins =
                   select_between order table (minLength inputLength') (maxLength inputLength');
                 searchTime' = searchEnd clk - startTime
             in Inr (searchCandidates searchTime' scaledFeatures proteins topN))"

section \<open>The prediction pipeline\<close>

text \<open>
  The scaler is the ONNX session: a function from the 27 raw features to the scaled
  vector that may fail, or \<open>None\<close> while the variable \<open>scalerSession\<close> is \<open>null\<close>, in
  which case reading \<open>scalerSession.inputNames\<close> throws a \<open>TypeError\<close>. The conversion
  of the features to a tensor of 32-bit floats and of the output back to an array are
  part of this function. The environment of a prediction is the state of the module,
  \<open>scalerSession\<close> and \<open>db\<close>, and the order of the database's scan by window.
\<close>

record env =
  scalerSession :: "(vec \<Rightarrow> error + vec) option"
  db :: "row list option"
  scanOrder :: "row list \<Rightarrow> row list"

text \<open>A prediction; the field \<open>searchTime\<close> of the source is \<open>knnTime\<close> here.\<close>

record prediction =
  results :: "result list"
  time :: int
  knnTime :: "int option"
  inputSequence :: string
  inputLength :: nat

definition predictProtein ::
  "env \<Rightarrow> clock \<Rightarrow> string \<Rightarrow> int option \<Rightarrow> bool option \<Rightarrow> error + prediction" where
  "predictProtein e clk sequence' topN' useFastSearch' =
     (let topN = or_default 5 topN';
          useFastSearch = or_default True useFastSearch';
          features' = extractFeaturesFast sequence'
      in case scalerSession e of
           None \<Rightarrow> Inl (TypeError ''Cannot read properties of null (reading inputNames)'')
         | Some run \<Rightarrow>
             (case run features' of
                Inl err \<Rightarrow> Inl err
              | Inr scaledFeatures \<Rightarrow>
                  (case (if useFastSearch
                         then findNearestNeighborsFast (scanOrder e) (db e) clk scaledFeatures
                                (Some topN) (length sequence')
                         else findNearestNeighbors (db e) clk scaledFeatures (Some topN) None)
                   of
                     Inl err \<Rightarrow> Inl err
                   | Inr rs \<Rightarrow>
                       Inr \<lparr>results = rs,
                            time = totalEnd clk - totalStart clk,
                            knnTime = (case rs of [] \<Rightarrow> None | r # _ \<Rightarrow> searchTime r),
                            inputSequence =
                              take 100 sequence' @ (if 100 < length sequence' then ''...'' else []),
                            inputLength = length sequence'\<rparr>)))"

section \<open>The request handler\<close>

text \<open>
  The checks of the handler of \<open>POST /api/predict\<close> (server.js, lines 33 to 66) and its
  call of the pipeline. The field \<open>sequence\<close> of the body is \<open>None\<close> when it is missing
  or not a string, and the field \<open>topN\<close> is \<open>None\<close> when it is missing.
  \<open>toUpperCase\<close> is the method of the language, a parameter here. An error response is
  its status with the fields \<open>error\<close> and \<open>message\<close> (their texts without the accents
  of the source); the successful response, of status 200, carries the results and the
  time of the prediction returned here.
\<close>

definition cleanSequence :: "(string \<Rightarrow> string) \<Rightarrow> string \<Rightarrow> string" where
  "cleanSequence toUpperCase s = filter (\<lambda>c. c \<in> set ''ACDEFGHIKLMNPQRSTVWY'') (toUpperCase s)"

fun error_message :: "error \<Rightarrow> string" where
  "error_message (Error m) = m"
| "error_message (TypeError m) = m"
| "error_message (ScalerError m) = m"

definition api_predict ::
  "(string \<Rightarrow> string) \<Rightarrow> bool \<Rightarrow> env \<Rightarrow> clock \<Rightarrow> string option \<Rightarrow> int option
     \<Rightarrow> (nat \<times> string \<times> string) + prediction" where
  "api_predict toUpperCase modelReady e clk sequence' topN' =
     (if \<not> modelReady
      then Inl (503, ''Modelo aun no esta listo'',
                ''Por favor espera unos segundos e intenta nuevamente'')
      else case sequence' of
             None \<Rightarrow> Inl (400, ''Secuencia invalida'',
                          ''Debes proporcionar una secuencia de proteina valida'')
           | Some s \<Rightarrow>
               if s = [] then Inl (400, ''Secuencia invalida'',
                                   ''Debes proporcionar una secuencia de proteina valida'')
               else let clean = cleanSequence toUpperCase s
                    in if length clean = 0
                       then Inl (400, ''Secuencia vacia'',
                                 ''La secuencia no contiene aminoacidos validos'')
                       else if length clean < 10
                       then Inl (400, ''Secuencia muy corta'',
                                 ''La secuencia debe tener al menos 10 aminoacidos'')
                       else case predictProtein e clk clean (Some (or_default 5 topN')) None of
                              Inl err \<Rightarrow> Inl (500, ''Error interno'', error_message err)
                            | Inr p \<Rightarrow> Inr p)"

section \<open>Well-formed inputs and an example corpus\<close>


text \<open>
  Rows whose vector is \<open>x\<close> followed by 26 zeros, the query of 27 zeros (so that the
  distance of such a row is \<open>|x|\<close>), an environment whose scaler returns this query and
  whose database scans in storage order, and four clock readings.
\<close>

definition example_row :: "int \<Rightarrow> string \<Rightarrow> string \<Rightarrow> real \<Rightarrow> row" where
  "example_row i name s x =
     \<lparr>protein_id = i, protein_name = name, sequence = s, organism = ''Homo sapiens'',
      description = ''example entry'', seq_length = int (length s),
      features = Num x # replicate 26 (Num 0)\<rparr>"

definition example_query :: vec where
  "example_query = replicate 27 (Num 0)"

definition example_env :: "row list \<Rightarrow> env" where
  "example_env table =
     \<lparr>scalerSession = Some (\<lambda>v. Inr example_query), db = Some table,
      scanOrder = (\<lambda>rows. rows)\<rparr>"

definition example_clock :: clock where
  "example_clock = \<lparr>totalStart = 100, searchStart = 103, searchEnd = 110, totalEnd = 112\<rparr>"

section \<open>Properties of feature extraction\<close>

lemma aaCounts_init_eq:
  "aaCounts_init aa = (if aa \<in> set aminoAcids then Some 0 else None)"
  by (simp add: aaCounts_init_def aminoAcids_def)

lemma fold_aaCounts_step:
  "fold aaCounts_step s m aa =
     (case m aa of Some n \<Rightarrow> Some (n + count_list s aa) | None \<Rightarrow> None)"
proof (induction s arbitrary: m)
  case Nil
  show ?case by (simp split: option.splits)
next
  case (Cons c s)
  have step: "aaCounts_step c m aa =
      (case m aa of Some n \<Rightarrow> Some (if c = aa then n + 1 else n) | None \<Rightarrow> None)"
    by (simp add: aaCounts_step_def split: option.splits)
  have "fold aaCounts_step (c # s) m aa = fold aaCounts_step s (aaCounts_step c m) aa"
    by simp
  also have "\<dots> = (case aaCounts_step c m aa of
                     Some n \<Rightarrow> Some (n + count_list s aa) | None \<Rightarrow> None)"
    by (rule Cons.IH)
  finally show ?case
    by (simp add: step split: option.splits)
qed

lemma aaCounts_eq:
  "aaCounts s aa = (if aa \<in> set aminoAcids then Some (count_list s aa) else None)"
  by (simp add: aaCounts_def fold_aaCounts_step aaCounts_init_eq)

lemma aaCounts_le_length: "aaCounts s aa = Some c \<Longrightarrow> c \<le> length s"
  by (auto simp: aaCounts_eq count_le_length split: if_splits)

lemma groupCount_le_length: "groupCount grp s \<le> length s"
  by (simp add: groupCount_def)

lemma distinct_aminoAcids: "distinct aminoAcids"
  by (simp add: aminoAcids_def)

lemma length_aminoAcids: "length aminoAcids = 20"
  by (simp add: aminoAcids_def)

lemma aaFraction_aaCounts:
  "aa \<in> set aminoAcids \<Longrightarrow>
   aaFraction (aaCounts s) n aa = js_div_count (count_list s aa) n"
  by (simp add: aaFraction_def aaCounts_eq)

lemma map_aaFraction:
  "map (aaFraction (aaCounts s) n) aminoAcids =
   map (\<lambda>aa. js_div_count (count_list s aa) n) aminoAcids"
  by (rule map_cong) (simp_all add: aaFraction_aaCounts)

lemma length_extractFeaturesFast: "length (extractFeaturesFast s) = 27"
  by (simp add: extractFeaturesFast_def Let_def length_aminoAcids)

lemma extractFeaturesFast_first:
  "extractFeaturesFast s ! 0 = Num (ln (1 + real (length s)))"
  by (simp add: extractFeaturesFast_def Let_def Math_log1p_def)

lemma extractFeaturesFast_fractions:
  "take 20 (drop 1 (extractFeaturesFast s)) =
   map (\<lambda>aa. js_div_count (count_list s aa) (length s)) aminoAcids"
  by (simp add: extractFeaturesFast_def Let_def length_aminoAcids map_aaFraction)

lemma extractFeaturesFast_groups:
  "drop 21 (extractFeaturesFast s) =
     [js_div_count (groupCount ''AILMFVPWG'' s) (length s),
      js_div_count (groupCount ''KRH'' s) (length s),
      js_div_count (groupCount ''DE'' s) (length s),
      js_div_count (groupCount ''STNQ'' s) (length s),
      js_div_count (groupCount ''FWY'' s) (length s),
      js_div_count (groupCount ''AGSV'' s) (length s)]"
  by (simp add: extractFeaturesFast_def Let_def length_aminoAcids)

lemma extractFeaturesFast_Nil: "extractFeaturesFast [] = Num 0 # replicate 26 NaN"
  by (simp add: extractFeaturesFast_def Let_def aminoAcids_def Math_log1p_def
      js_div_count_def aaFraction_def groupCount_def aaCounts_def aaCounts_init_def
      numeral_eq_Suc)

lemma sum_list_counts:
  assumes "set s \<subseteq> set aminoAcids"
  shows "sum_list (map (count_list s) aminoAcids) = length s"
proof -
  have "sum_list (map (count_list s) aminoAcids) = sum (count_list s) (set aminoAcids)"
    by (rule sum_list_distinct_conv_sum_set [OF distinct_aminoAcids])
  also have "\<dots> = length s"
    by (rule sum_count_set [OF assms]) simp
  finally show ?thesis .
qed

lemma sum_list_fractions:
  "sum_list (map (\<lambda>x. real (f x) / d) xs) = real (sum_list (map f xs)) / d"
  by (induction xs) (simp_all add: add_divide_distrib)

lemma fold_js_add_Num:
  "fold (\<lambda>x acc. js_add acc x) (map Num fs) (Num a) = Num (a + sum_list fs)"
  by (induction fs arbitrary: a) (simp_all add: add.assoc)

lemma js_sum_Num: "js_sum (map Num fs) = Num (sum_list fs)"
  by (simp add: js_sum_def fold_js_add_Num)

text \<open>
  Claim C4. For every sequence, the empty one and one with foreign characters included,
  feature extraction returns 27 elements: the first is \<open>ln (1 + len)\<close>; the next 20
  are, in the order of the alphabet \<open>ACDEFGHIKLMNPQRSTVWY\<close>, the number of occurrences
  of the symbol divided by the length; the last 6 are the numbers of residues in the
  hydrophobic, positive, negative, polar, aromatic and small groups, each divided by
  the length. A division by the length 0 is \<open>0 / 0\<close>, that is \<open>NaN\<close>.
\<close>

theorem extractFeaturesFast_layout:
  "length (extractFeaturesFast s) = 27 \<and>
   extractFeaturesFast s ! 0 = Num (ln (1 + real (length s))) \<and>
   take 20 (drop 1 (extractFeaturesFast s)) =
     map (\<lambda>aa. js_div_count (count_list s aa) (length s)) ''ACDEFGHIKLMNPQRSTVWY'' \<and>
   drop 21 (extractFeaturesFast s) =
     [js_div_count (length (filter (\<lambda>c. c \<in> set ''AILMFVPWG'') s)) (length s),
      js_div_count (length (filter (\<lambda>c. c \<in> set ''KRH'') s)) (length s),
      js_div_count (length (filter (\<lambda>c. c \<in> set ''DE'') s)) (length s),
      js_div_count (length (filter (\<lambda>c. c \<in> set ''STNQ'') s)) (length s),
      js_div_count (length (filter (\<lambda>c. c \<in> set ''FWY'') s)) (length s),
      js_div_count (length (filter (\<lambda>c. c \<in> set ''AGSV'') s)) (length s)]"
proof -
  have "take 20 (drop 1 (extractFeaturesFast s)) =
      map (\<lambda>aa. js_div_count (count_list s aa) (length s)) ''ACDEFGHIKLMNPQRSTVWY''"
    using extractFeaturesFast_fractions [of s] by (simp only: aminoAcids_def)
  moreover have "drop 21 (extractFeaturesFast s) =
     [js_div_count (length (filter (\<lambda>c. c \<in> set ''AILMFVPWG'') s)) (length s),
      js_div_count (length (filter (\<lambda>c. c \<in> set ''KRH'') s)) (length s),
      js_div_count (length (filter (\<lambda>c. c \<in> set ''DE'') s)) (length s),
      js_div_count (length (filter (\<lambda>c. c \<in> set ''STNQ'') s)) (length s),
      js_div_count (length (filter (\<lambda>c. c \<in> set ''FWY'') s)) (length s),
      js_div_count (length (filter (\<lambda>c. c \<in> set ''AGSV'') s)) (length s)]"
    using extractFeaturesFast_groups [of s] by (simp only: groupCount_def)
  ultimately show ?thesis
    using length_extractFeaturesFast [of s] extractFeaturesFast_first [of s] by blast
qed

text \<open>
  Claim C5. For every nonempty sequence over the 20 symbols of the alphabet, the
  elements 2 to 21 of the extracted vector are numbers whose sum, in exact arithmetic,
  is 1.
\<close>

theorem composition_fractions_sum_to_one:
  assumes "s \<noteq> []" and "set s \<subseteq> set ''ACDEFGHIKLMNPQRSTVWY''"
  shows "js_sum (take 20 (drop 1 (extractFeaturesFast s))) = Num 1"
proof -
  from assms(2) have sub: "set s \<subseteq> set aminoAcids"
    by (simp only: aminoAcids_def)
  from assms(1) have pos: "length s \<noteq> 0"
    by simp
  have "map (\<lambda>aa. js_div_count (count_list s aa) (length s)) aminoAcids =
      map Num (map (\<lambda>aa. real (count_list s aa) / real (length s)) aminoAcids)"
    using pos by (simp add: js_div_count_def)
  then have "take 20 (drop 1 (extractFeaturesFast s)) =
      map Num (map (\<lambda>aa. real (count_list s aa) / real (length s)) aminoAcids)"
    by (simp only: extractFeaturesFast_fractions)
  then have "js_sum (take 20 (drop 1 (extractFeaturesFast s))) =
      Num (sum_list (map (\<lambda>aa. real (count_list s aa) / real (length s)) aminoAcids))"
    by (simp only: js_sum_Num)
  also have "sum_list (map (\<lambda>aa. real (count_list s aa) / real (length s)) aminoAcids) =
      real (sum_list (map (count_list s) aminoAcids)) / real (length s)"
    by (rule sum_list_fractions)
  also have "\<dots> = 1"
    using pos by (simp add: sum_list_counts [OF sub])
  finally show ?thesis .
qed

theorem composition_fractions_sum_to_one_witness:
  "''MVLSPADKTNVKAAWGKVGA'' \<noteq> [] \<and>
   set ''MVLSPADKTNVKAAWGKVGA'' \<subseteq> set ''ACDEFGHIKLMNPQRSTVWY'' \<and>
   js_sum (take 20 (drop 1 (extractFeaturesFast ''MVLSPADKTNVKAAWGKVGA''))) = Num 1"
proof -
  have ne: "''MVLSPADKTNVKAAWGKVGA'' \<noteq> []"
    by simp
  have sub: "set ''MVLSPADKTNVKAAWGKVGA'' \<subseteq> set ''ACDEFGHIKLMNPQRSTVWY''"
    by simp
  show ?thesis
    using ne sub composition_fractions_sum_to_one [OF ne sub] by blast
qed

section \<open>Properties of the distance\<close>

lemma Num_num_of: "is_number x \<Longrightarrow> Num (num_of x) = x"
  by (cases x) simp_all

lemma numeric_vec: "list_all is_number v \<Longrightarrow> map Num (map num_of v) = v"
  by (induction v) (simp_all add: Num_num_of)

lemma fold_distance_Num:
  assumes "n \<le> length xs" and "n \<le> length ys"
  shows "fold (\<lambda>i sum. js_add sum (Math_pow2 (js_sub (map Num xs ! i) (js_at (map Num ys) i))))
           [0..<n] (Num 0) = Num (\<Sum>i<n. (xs ! i - ys ! i)\<^sup>2)"
  using assms
proof (induction n)
  case 0
  show ?case by simp
next
  case (Suc n)
  then show ?case by (simp add: js_at_def)
qed

lemma euclideanDistance_Num:
  assumes "length xs \<le> length ys"
  shows "euclideanDistance (map Num xs) (map Num ys) =
         Num (sqrt (\<Sum>i<length xs. (xs ! i - ys ! i)\<^sup>2))"
proof -
  have "0 \<le> (\<Sum>i<length xs. (xs ! i - ys ! i)\<^sup>2)"
    by (rule sum_nonneg) simp
  then show ?thesis
    using fold_distance_Num [of "length xs" xs ys] assms
    by (simp add: euclideanDistance_def)
qed

lemma euclideanDistance_numeric:
  assumes "list_all is_number a" and "list_all is_number b" and "length a \<le> length b"
  shows "euclideanDistance a b =
         Num (sqrt (\<Sum>i<length a. (num_of (a ! i) - num_of (b ! i))\<^sup>2))"
proof -
  have len: "length (map num_of a) \<le> length (map num_of b)"
    using assms(3) by simp
  have "(\<Sum>i<length (map num_of a). (map num_of a ! i - map num_of b ! i)\<^sup>2) =
      (\<Sum>i<length a. (num_of (a ! i) - num_of (b ! i))\<^sup>2)"
    using assms(3) by (intro sum.cong) simp_all
  then have "euclideanDistance (map Num (map num_of a)) (map Num (map num_of b)) =
      Num (sqrt (\<Sum>i<length a. (num_of (a ! i) - num_of (b ! i))\<^sup>2))"
    by (simp only: euclideanDistance_Num [OF len])
  then show ?thesis
    by (simp only: numeric_vec [OF assms(1)] numeric_vec [OF assms(2)])
qed

lemma euclideanDistance_shorter: "euclideanDistance [Num 1] [] = NaN"
  by (simp add: euclideanDistance_def js_at_def)

lemma euclideanDistance_longer: "euclideanDistance [] [Num 1] = Num 0"
  by (simp add: euclideanDistance_def)

text \<open>
  Claim C6. For vectors of numbers of one dimension, as the feature vectors are, the
  distance of a vector to itself is 0, the distance is symmetric, and it is not
  negative. (Where the second vector is the shorter one the loop reads beyond its end
  and the distance is \<open>NaN\<close>, lemma \<open>euclideanDistance_shorter\<close>.)
\<close>

theorem euclideanDistance_metric:
  assumes "list_all is_number a" and "list_all is_number b" and "length a = length b"
  shows "euclideanDistance a a = Num 0 \<and>
         js_eq (euclideanDistance a b) (euclideanDistance b a) \<and>
         js_le (Num 0) (euclideanDistance a b)"
proof -
  have self: "euclideanDistance a a = Num 0"
    by (simp add: euclideanDistance_numeric [OF assms(1) assms(1)])
  have ab: "euclideanDistance a b =
      Num (sqrt (\<Sum>i<length a. (num_of (a ! i) - num_of (b ! i))\<^sup>2))"
    using assms by (simp add: euclideanDistance_numeric)
  have ba: "euclideanDistance b a =
      Num (sqrt (\<Sum>i<length a. (num_of (b ! i) - num_of (a ! i))\<^sup>2))"
    using assms by (simp add: euclideanDistance_numeric)
  have "(\<Sum>i<length a. (num_of (a ! i) - num_of (b ! i))\<^sup>2) =
      (\<Sum>i<length a. (num_of (b ! i) - num_of (a ! i))\<^sup>2)"
    by (simp add: power2_commute)
  then have sym: "js_eq (euclideanDistance a b) (euclideanDistance b a)"
    by (simp add: ab ba)
  have "js_le (Num 0) (euclideanDistance a b)"
    by (simp add: ab sum_nonneg)
  with self sym show ?thesis
    by blast
qed

theorem euclideanDistance_metric_witness:
  "euclideanDistance [Num 3, Num 0] [Num 3, Num 0] = Num 0 \<and>
   js_eq (euclideanDistance [Num 3, Num 0] [Num 0, Num 4])
         (euclideanDistance [Num 0, Num 4] [Num 3, Num 0]) \<and>
   js_le (Num 0) (euclideanDistance [Num 3, Num 0] [Num 0, Num 4])"
  using euclideanDistance_metric [of "[Num 3, Num 0]" "[Num 0, Num 4]"]
  by simp

section \<open>Properties of sorting and truncation\<close>






lemma js_sort_single: "js_sort cmp [x] = [x]"
  by (simp add: js_sort_def)






lemma length_js_map_index: "length (js_map_index f xs) = length xs"
  by (simp add: js_map_index_def)

lemma nth_js_map_index: "i < length xs \<Longrightarrow> js_map_index f xs ! i = f (xs ! i) i"
  by (simp add: js_map_index_def)



lemma distance_score: "distance (score q p) = euclideanDistance q (features p)"
  by (simp add: score_def)


section \<open>Properties of the rendering of numbers\<close>






section \<open>Properties of the search\<close>




lemma sorted_wrt_js_slice0: "sorted_wrt P xs \<Longrightarrow> sorted_wrt P (js_slice0 e xs)"
  by (simp add: js_slice0_def sorted_wrt_take)



section \<open>Properties of the rounding to binary64\<close>


lemma round_half_even_cases:
  "round_half_even y = \<lfloor>y\<rfloor> \<and> y - of_int \<lfloor>y\<rfloor> \<le> 1 / 2 \<or>
   round_half_even y = \<lfloor>y\<rfloor> + 1 \<and> 1 / 2 \<le> y - of_int \<lfloor>y\<rfloor>"
  by (auto simp add: round_half_even_def Let_def)





lemma round_half_even_close: "\<bar>real_of_int (round_half_even y) - y\<bar> \<le> 1 / 2"
  using round_half_even_cases [of y] by (auto simp: abs_le_iff)




















lemma round_double_0: "round_double 0 = 0"
  by (simp add: round_double_def)





section \<open>Properties of the reported similarity\<close>












section \<open>The example corpus\<close>

lemma distance_example:
  "euclideanDistance example_query (features (example_row i name s x)) = Num \<bar>x\<bar>"
proof -
  let ?xs = "replicate (Suc 26) (0 :: real)"
  let ?ys = "x # replicate 26 0"
  have len: "length ?xs \<le> length ?ys"
    by simp
  have "(\<Sum>i<Suc 26. (?xs ! i - ?ys ! i)\<^sup>2) = x\<^sup>2"
    by (simp only: sum.lessThan_Suc_shift) simp
  then have sum: "(\<Sum>i<length ?xs. (?xs ! i - ?ys ! i)\<^sup>2) = x\<^sup>2"
    by (simp only: length_replicate)
  have "euclideanDistance (map Num ?xs) (map Num ?ys) = Num (sqrt (x\<^sup>2))"
    by (simp only: euclideanDistance_Num [OF len] sum)
  then have "euclideanDistance (map Num ?xs) (map Num ?ys) = Num \<bar>x\<bar>"
    by simp
  then show ?thesis
    by (simp add: example_query_def example_row_def)
qed



lemma searchCandidates_single:
  "0 < topN \<Longrightarrow> searchCandidates t q [p] topN = [shape t (score q p) 0]"
  by (simp add: searchCandidates_def topResults_def js_sort_single js_slice0_def
      js_map_index_def take_Cons')

lemma searchCandidates_Nil: "searchCandidates t q [] topN = []"
  by (simp add: searchCandidates_def topResults_def js_sort_def js_slice0_def js_map_index_def)




section \<open>Properties of the window of lengths\<close>

lemma minLength_le_iff: "minLength n \<le> l \<longleftrightarrow> 0.8 * real n - 1 < real_of_int l"
  by (simp add: minLength_def floor_le_iff) argo

lemma le_maxLength_iff: "l \<le> maxLength n \<longleftrightarrow> real_of_int l < 1.2 * real n + 1"
  by (simp add: maxLength_def le_ceiling_iff) argo

lemma minLength_eq: "minLength n = (4 * int n) div 5"
proof -
  have "real n * 0.8 = real_of_int (4 * int n) / real_of_int 5"
    by simp
  then show ?thesis
    unfolding minLength_def by (simp only: floor_divide_of_int_eq)
qed

lemma maxLength_eq: "maxLength n = - ((- (6 * int n)) div 5)"
proof -
  have "- (real n * 1.2) = real_of_int (- (6 * int n)) / real_of_int 5"
    by simp
  then have "\<lfloor>- (real n * 1.2)\<rfloor> = (- (6 * int n)) div 5"
    by (simp only: floor_divide_of_int_eq)
  then show ?thesis
    by (simp add: maxLength_def ceiling_def)
qed

lemma findNearestNeighborsFast_Some:
  "findNearestNeighborsFast order (Some table) clk q topN' n =
     Inr (searchCandidates (searchEnd clk - searchStart clk) q
            (select_between order table (minLength n) (maxLength n)) (or_default 5 topN'))"
  by (simp add: findNearestNeighborsFast_def)

lemma findNearestNeighbors_Some:
  "findNearestNeighbors (Some table) clk q topN' maxScan' =
     Inr (searchCandidates (searchEnd clk - searchStart clk) q
            (select_limit table (or_default 50000 maxScan')) (or_default 5 topN'))"
  by (simp add: findNearestNeighbors_def)

lemma select_between_window:
  "select_between order table (minLength n) (maxLength n) =
     take 100000
       (order (filter (\<lambda>p. 0.8 * real n - 1 < real_of_int (seq_length p) \<and>
                           real_of_int (seq_length p) < 1.2 * real n + 1) table))"
  by (simp add: select_between_def sql_limit_def minLength_le_iff le_maxLength_iff)

lemma mset_take_subset: "mset (take k xs) \<subseteq># mset xs"
proof -
  have "mset xs = mset (take k xs) + mset (drop k xs)"
    by (simp flip: mset_append)
  then show ?thesis
    by simp
qed

text \<open>
  Claim C7, as amended. In fast mode, for a query of length \<open>len\<close>, the candidates are
  at most 100000 of the stored entries whose length is an integer from
  \<open>floor(0.8 * len)\<close> to \<open>ceil(1.2 * len)\<close>, that is, whose length \<open>l\<close> satisfies
  \<open>0.8 * len - 1 < l < 1.2 * len + 1\<close>, and no other entry; when at most 100000
  entries have such a length, the candidates are exactly these. Every entry with a
  length in \<open>[0.8 * len, 1.2 * len]\<close> has such a length, and so have the entries with
  a length less than 1 outside that interval.
\<close>

theorem fast_candidates_window:
  assumes "is_scan_order order"
  shows "\<exists>cands.
           findNearestNeighborsFast order (Some table) clk q topN' len =
             Inr (searchCandidates (searchEnd clk - searchStart clk) q cands (or_default 5 topN')) \<and>
           length cands \<le> 100000 \<and>
           mset cands \<subseteq>#
             mset (filter (\<lambda>p. 0.8 * real len - 1 < real_of_int (seq_length p) \<and>
                                real_of_int (seq_length p) < 1.2 * real len + 1) table) \<and>
           (length (filter (\<lambda>p. 0.8 * real len - 1 < real_of_int (seq_length p) \<and>
                                 real_of_int (seq_length p) < 1.2 * real len + 1) table)
              \<le> 100000 \<longrightarrow>
            mset cands =
              mset (filter (\<lambda>p. 0.8 * real len - 1 < real_of_int (seq_length p) \<and>
                                 real_of_int (seq_length p) < 1.2 * real len + 1) table)) \<and>
           (\<forall>p :: row. 0.8 * real len \<le> real_of_int (seq_length p) \<and>
                real_of_int (seq_length p) \<le> 1.2 * real len \<longrightarrow>
                0.8 * real len - 1 < real_of_int (seq_length p) \<and>
                real_of_int (seq_length p) < 1.2 * real len + 1)"
proof -
  let ?W = "filter (\<lambda>p. 0.8 * real len - 1 < real_of_int (seq_length p) \<and>
                        real_of_int (seq_length p) < 1.2 * real len + 1) table"
  let ?cands = "select_between order table (minLength len) (maxLength len)"
  have cands: "?cands = take 100000 (order ?W)"
    by (rule select_between_window)
  from assms have perm: "mset (order ?W) = mset ?W"
    by (simp add: is_scan_order_def)
  then have len: "length (order ?W) = length ?W"
    by (rule mset_eq_length)
  have 1: "findNearestNeighborsFast order (Some table) clk q topN' len =
      Inr (searchCandidates (searchEnd clk - searchStart clk) q ?cands (or_default 5 topN'))"
    by (rule findNearestNeighborsFast_Some)
  have 2: "length ?cands \<le> 100000"
    by (simp add: cands)
  have 3: "mset ?cands \<subseteq># mset ?W"
    unfolding cands using mset_take_subset [of 100000 "order ?W"] by (simp only: perm)
  have 4: "length ?W \<le> 100000 \<longrightarrow> mset ?cands = mset ?W"
  proof
    assume "length ?W \<le> 100000"
    then have "length (order ?W) \<le> 100000"
      by (simp only: len)
    then have "take 100000 (order ?W) = order ?W"
      by (rule take_all)
    then show "mset ?cands = mset ?W"
      by (simp only: cands perm)
  qed
  have 5: "\<forall>p :: row. 0.8 * real len \<le> real_of_int (seq_length p) \<and>
                real_of_int (seq_length p) \<le> 1.2 * real len \<longrightarrow>
                0.8 * real len - 1 < real_of_int (seq_length p) \<and>
                real_of_int (seq_length p) < 1.2 * real len + 1"
    by simp
  from 1 2 3 4 5 show ?thesis
    by blast
qed

theorem fast_candidates_window_witness:
  "is_scan_order rev \<and>
   (\<exists>cands.
      findNearestNeighborsFast rev
          (Some [example_row 1 ''A'' ''ACDEFGHI'' 0, example_row 2 ''B'' ''ACDEFGHIK'' 0])
          example_clock example_query None 11 =
        Inr (searchCandidates (searchEnd example_clock - searchStart example_clock)
               example_query cands (or_default 5 None)) \<and>
      mset cands =
        mset (filter (\<lambda>p. 0.8 * real 11 - 1 < real_of_int (seq_length p) \<and>
                           real_of_int (seq_length p) < 1.2 * real 11 + 1)
                [example_row 1 ''A'' ''ACDEFGHI'' 0, example_row 2 ''B'' ''ACDEFGHIK'' 0])) \<and>
   0.8 * real 11 \<le> real_of_int (seq_length (example_row 2 ''B'' ''ACDEFGHIK'' 0)) \<and>
   real_of_int (seq_length (example_row 2 ''B'' ''ACDEFGHIK'' 0)) \<le> 1.2 * real 11 \<and>
   0.8 * real 11 - 1 < real_of_int (seq_length (example_row 2 ''B'' ''ACDEFGHIK'' 0)) \<and>
   real_of_int (seq_length (example_row 2 ''B'' ''ACDEFGHIK'' 0)) < 1.2 * real 11 + 1"
proof -
  let ?a = "example_row 1 ''A'' ''ACDEFGHI'' 0"
  let ?b = "example_row 2 ''B'' ''ACDEFGHIK'' 0"
  let ?W = "filter (\<lambda>p. 0.8 * real 11 - 1 < real_of_int (seq_length p) \<and>
                        real_of_int (seq_length p) < 1.2 * real 11 + 1) [?a, ?b]"
  have h: "is_scan_order rev"
    by (simp add: is_scan_order_def)
  have small: "length ?W \<le> 100000"
    by (rule order_trans [OF length_filter_le]) simp
  have win: "0.8 * real 11 \<le> real_of_int (seq_length ?b) \<and>
      real_of_int (seq_length ?b) \<le> 1.2 * real 11"
    by (simp add: example_row_def)
  from fast_candidates_window [OF h, of "[?a, ?b]" example_clock example_query None 11]
  obtain cands where
    1: "findNearestNeighborsFast rev (Some [?a, ?b]) example_clock example_query None 11 =
      Inr (searchCandidates (searchEnd example_clock - searchStart example_clock)
             example_query cands (or_default 5 None))"
    and 2: "length ?W \<le> 100000 \<longrightarrow> mset cands = mset ?W"
    and 3: "\<forall>p :: row. 0.8 * real 11 \<le> real_of_int (seq_length p) \<and>
                real_of_int (seq_length p) \<le> 1.2 * real 11 \<longrightarrow>
                0.8 * real 11 - 1 < real_of_int (seq_length p) \<and>
                real_of_int (seq_length p) < 1.2 * real 11 + 1"
    by blast
  from 2 small have 4: "mset cands = mset ?W"
    by (rule mp)
  from 3 [THEN spec, of ?b] win
  have 5: "0.8 * real 11 - 1 < real_of_int (seq_length ?b) \<and>
      real_of_int (seq_length ?b) < 1.2 * real 11 + 1"
    by (rule mp)
  from 1 4 have "\<exists>cands.
      findNearestNeighborsFast rev (Some [?a, ?b]) example_clock example_query None 11 =
        Inr (searchCandidates (searchEnd example_clock - searchStart example_clock)
               example_query cands (or_default 5 None)) \<and>
      mset cands = mset ?W"
    by blast
  with h win 5 show ?thesis
    by (intro conjI) (erule conjunct1 conjunct2 | assumption)+
qed

theorem window_widened_counterexample:
  "seq_length (example_row 1 ''A'' ''ACDEFGHI'' 0) = 8 \<and>
   real_of_int 8 < 0.8 * real 11 \<and>
   (case findNearestNeighborsFast (\<lambda>rows. rows) (Some [example_row 1 ''A'' ''ACDEFGHI'' 0])
           example_clock example_query None 11 of
      Inl err \<Rightarrow> []
    | Inr rs \<Rightarrow> map protein rs) = [''A'']"
proof -
  have "select_between (\<lambda>rows. rows) [example_row 1 ''A'' ''ACDEFGHI'' 0]
      (minLength 11) (maxLength 11) = [example_row 1 ''A'' ''ACDEFGHI'' 0]"
    by (simp add: select_between_def sql_limit_def minLength_eq maxLength_eq example_row_def)
  then show ?thesis
    by (simp add: findNearestNeighborsFast_Some searchCandidates_single or_default_def
        shape_def score_def) (simp add: example_row_def)
qed

section \<open>Properties of the pipeline\<close>

lemma predictProtein_run:
  assumes "scalerSession e = Some run" and "run (extractFeaturesFast s) = Inr q"
    and "db e = Some table"
  shows "predictProtein e clk s topN fast =
     (let rs = searchCandidates (searchEnd clk - searchStart clk) q
                 (if or_default True fast
                  then select_between (scanOrder e) table (minLength (length s))
                         (maxLength (length s))
                  else select_limit table 50000)
                 (or_default 5 topN)
      in Inr \<lparr>results = rs,
              time = totalEnd clk - totalStart clk,
              knnTime = (case rs of [] \<Rightarrow> None | r # _ \<Rightarrow> searchTime r),
              inputSequence = take 100 s @ (if 100 < length s then ''...'' else []),
              inputLength = length s\<rparr>)"
  using assms
  by (simp add: predictProtein_def Let_def findNearestNeighborsFast_Some
      findNearestNeighbors_Some or_default_def)

lemma predictProtein_Inr:
  assumes "predictProtein e clk s topN fast = Inr p"
  shows "\<exists>q cands. results p =
           searchCandidates (searchEnd clk - searchStart clk) q cands (or_default 5 topN) \<and>
         knnTime p = (case results p of [] \<Rightarrow> None | r # _ \<Rightarrow> searchTime r) \<and>
         time p = totalEnd clk - totalStart clk"
proof -
  from assms obtain run where run: "scalerSession e = Some run"
    by (cases "scalerSession e") (simp_all add: predictProtein_def Let_def)
  from assms run obtain q where q: "run (extractFeaturesFast s) = Inr q"
    by (cases "run (extractFeaturesFast s)") (simp_all add: predictProtein_def Let_def)
  from assms run q obtain table where table: "db e = Some table"
    by (cases "db e")
      (simp_all add: predictProtein_def Let_def findNearestNeighborsFast_def
        findNearestNeighbors_def split: if_splits)
  let ?cands = "if or_default True fast
      then select_between (scanOrder e) table (minLength (length s)) (maxLength (length s))
      else select_limit table 50000"
  let ?rs = "searchCandidates (searchEnd clk - searchStart clk) q ?cands (or_default 5 topN)"
  from assms have p: "p = \<lparr>results = ?rs,
      time = totalEnd clk - totalStart clk,
      knnTime = (case ?rs of [] \<Rightarrow> None | r # _ \<Rightarrow> searchTime r),
      inputSequence = take 100 s @ (if 100 < length s then ''...'' else []),
      inputLength = length s\<rparr>"
    unfolding predictProtein_run [OF run q table] Let_def by simp
  have "results p = ?rs"
    and "knnTime p = (case results p of [] \<Rightarrow> None | r # _ \<Rightarrow> searchTime r)"
    and "time p = totalEnd clk - totalStart clk"
    by (simp_all add: p)
  then show ?thesis
    by blast
qed

lemma searchTime_shape: "searchTime (shape t item i) = (if i = 0 then Some t else None)"
  by (simp add: shape_def)

lemma map_searchTime_js_map_index:
  "map searchTime (js_map_index (shape t) xs) =
     (case xs of [] \<Rightarrow> [] | x # ys \<Rightarrow> Some t # replicate (length ys) None)"
proof (cases xs)
  case Nil
  then show ?thesis by (simp add: js_map_index_def)
next
  case (Cons x ys)
  have "map searchTime (js_map_index (shape t) xs) ! i =
      (Some t # replicate (length ys) None) ! i" if "i < length xs" for i
    using that Cons
    by (cases i) (simp_all add: nth_js_map_index length_js_map_index searchTime_shape)
  then have "map searchTime (js_map_index (shape t) xs) = Some t # replicate (length ys) None"
    using Cons by (intro nth_equalityI) (simp_all add: length_js_map_index)
  then show ?thesis
    using Cons by simp
qed

lemma map_searchTime_searchCandidates:
  "map searchTime (searchCandidates t q cands topN) =
     (case searchCandidates t q cands topN of
        [] \<Rightarrow> []
      | r # rs \<Rightarrow> Some t # replicate (length rs) None)"
proof -
  have "map searchTime (searchCandidates t q cands topN) =
      (case topResults q cands topN of
         [] \<Rightarrow> []
       | x # ys \<Rightarrow> Some t # replicate (length ys) None)"
    by (simp only: searchCandidates_def map_searchTime_js_map_index)
  moreover have "length (searchCandidates t q cands topN) = length (topResults q cands topN)"
    by (simp add: searchCandidates_def length_js_map_index)
  ultimately show ?thesis
    by (cases "topResults q cands topN"; cases "searchCandidates t q cands topN") simp_all
qed

text \<open>
  Claim C8, as amended. In every successful prediction the time of the search, the
  difference of the two clock readings around it, is the field \<open>searchTime\<close> of the
  first result; in every other result that field is \<open>undefined\<close>. The prediction
  copies its own search time from the first result, and has none when there is no
  result. The total time is a field of the prediction only.
\<close>

theorem search_time_on_first_result:
  assumes "predictProtein e clk s topN fast = Inr p"
  shows "map searchTime (results p) =
           (case results p of
              [] \<Rightarrow> []
            | r # rs \<Rightarrow> Some (searchEnd clk - searchStart clk) # replicate (length rs) None) \<and>
         knnTime p =
           (case results p of
              [] \<Rightarrow> None
            | r # rs \<Rightarrow> Some (searchEnd clk - searchStart clk)) \<and>
         time p = totalEnd clk - totalStart clk"
proof -
  from predictProtein_Inr [OF assms] obtain q cands where
    rs: "results p =
      searchCandidates (searchEnd clk - searchStart clk) q cands (or_default 5 topN)"
    and knn: "knnTime p = (case results p of [] \<Rightarrow> None | r # _ \<Rightarrow> searchTime r)"
    and tm: "time p = totalEnd clk - totalStart clk"
    by blast
  have m: "map searchTime (results p) =
      (case results p of
         [] \<Rightarrow> []
       | r # rs \<Rightarrow> Some (searchEnd clk - searchStart clk) # replicate (length rs) None)"
    unfolding rs by (rule map_searchTime_searchCandidates)
  have "knnTime p =
      (case results p of [] \<Rightarrow> None | r # rs \<Rightarrow> Some (searchEnd clk - searchStart clk))"
    using m knn by (cases "results p") simp_all
  with m tm show ?thesis
    by blast
qed

lemma predictProtein_example:
  "predictProtein (example_env table) example_clock s None None =
     (let rs = searchCandidates 7 example_query
                 (select_between (\<lambda>rows. rows) table (minLength (length s))
                    (maxLength (length s))) 5
      in Inr \<lparr>results = rs,
              time = 12,
              knnTime = (case rs of [] \<Rightarrow> None | r # _ \<Rightarrow> searchTime r),
              inputSequence = take 100 s @ (if 100 < length s then ''...'' else []),
              inputLength = length s\<rparr>)"
proof -
  have "scalerSession (example_env table) = Some (\<lambda>v. Inr example_query)"
    and "(\<lambda>v. Inr example_query) (extractFeaturesFast s) = Inr example_query"
    and "db (example_env table) = Some table"
    by (simp_all add: example_env_def)
  then show ?thesis
    by (simp add: predictProtein_run [where q = example_query] or_default_def example_clock_def)
      (simp add: example_env_def)
qed

lemma select_between_example:
  "select_between (\<lambda>rows. rows) [example_row i name s x] (minLength n) (maxLength n) =
     (if (4 * int n) div 5 \<le> int (length s) \<and> int (length s) \<le> - ((- (6 * int n)) div 5)
      then [example_row i name s x] else [])"
  by (simp add: select_between_def sql_limit_def minLength_eq maxLength_eq example_row_def)

theorem search_time_counterexample:
  "(case predictProtein (example_env [example_row 1 ''A'' ''ACDEFGHIKL'' (1 / 2)]) example_clock
          ''ACDEFGHIKL'' None None of
      Inl err \<Rightarrow> ([], None)
    | Inr p \<Rightarrow> (map searchTime (results p), knnTime p)) = ([Some 7], Some 7)"
  by (simp add: predictProtein_example select_between_example searchCandidates_single
      searchTime_shape)

theorem search_time_on_first_result_witness:
  "\<exists>p. predictProtein (example_env [example_row 1 ''A'' ''ACDEFGHIKL'' (1 / 2)]) example_clock
          ''ACDEFGHIKL'' None None = Inr p \<and>
       map searchTime (results p) = [Some 7] \<and> knnTime p = Some 7 \<and> time p = 12"
proof -
  let ?row = "example_row 1 ''A'' ''ACDEFGHIKL'' (1 / 2)"
  let ?p = "\<lparr>results = [shape 7 (score example_query ?row) 0], time = 12, knnTime = Some 7,
      inputSequence = ''ACDEFGHIKL'', inputLength = 10\<rparr>"
  have h: "predictProtein (example_env [?row]) example_clock ''ACDEFGHIKL'' None None = Inr ?p"
    by (simp add: predictProtein_example select_between_example searchCandidates_single
        searchTime_shape)
  from search_time_on_first_result [OF h]
  have "map searchTime (results ?p) = [Some 7] \<and> knnTime ?p = Some 7 \<and> time ?p = 12"
    by (simp add: example_clock_def)
  with h show ?thesis
    by (intro exI [of _ ?p] conjI) simp_all
qed

text \<open>
  Claim C9, as amended. When the scan of the window of lengths yields no candidate, the
  pipeline in fast mode returns an ordinary successful prediction whose list of results
  is empty and whose search time is \<open>undefined\<close>: no error and no marker tells the
  caller that there were no candidates.
\<close>

theorem no_candidates_empty_result:
  assumes "scalerSession e = Some run" and "run (extractFeaturesFast s) = Inr q"
    and "db e = Some table" and "fast \<noteq> Some False"
    and "select_between (scanOrder e) table (minLength (length s)) (maxLength (length s)) = []"
  shows "predictProtein e clk s topN fast =
     Inr \<lparr>results = [],
          time = totalEnd clk - totalStart clk,
          knnTime = None,
          inputSequence = take 100 s @ (if 100 < length s then ''...'' else []),
          inputLength = length s\<rparr>"
proof -
  from assms(4) have "or_default True fast"
    by (cases fast) (simp_all add: or_default_def)
  then show ?thesis
    by (simp add: predictProtein_run [OF assms(1,2,3)] assms(5) searchCandidates_Nil)
qed

theorem no_candidates_empty_result_witness:
  "predictProtein (example_env [example_row 1 ''A'' ''ACDEFGHIKLMNPQRSTVWYACDEFGHIKL'' 0])
     example_clock ''ACDEFGHIKL'' (Some 5) None =
     Inr \<lparr>results = [],
          time = totalEnd example_clock - totalStart example_clock,
          knnTime = None,
          inputSequence = take 100 ''ACDEFGHIKL'' @ (if 100 < length ''ACDEFGHIKL'' then ''...'' else []),
          inputLength = length ''ACDEFGHIKL''\<rparr>"
proof -
  let ?table = "[example_row 1 ''A'' ''ACDEFGHIKLMNPQRSTVWYACDEFGHIKL'' 0]"
  have 1: "scalerSession (example_env ?table) = Some (\<lambda>v. Inr example_query)"
    and 2: "(\<lambda>v. Inr example_query) (extractFeaturesFast ''ACDEFGHIKL'') = Inr example_query"
    and 3: "db (example_env ?table) = Some ?table"
    and 4: "(None :: bool option) \<noteq> Some False"
    by (simp_all add: example_env_def)
  have 5: "select_between (scanOrder (example_env ?table)) ?table
      (minLength (length ''ACDEFGHIKL'')) (maxLength (length ''ACDEFGHIKL'')) = []"
    by (simp add: select_between_example example_env_def)
  show ?thesis
    by (rule no_candidates_empty_result [OF 1 2 3 4 5])
qed

theorem no_candidates_counterexample:
  "predictProtein (example_env [example_row 1 ''A'' ''ACDEFGHIKLMNPQRSTVWYACDEFGHIKL'' 0])
     example_clock ''ACDEFGHIKL'' None None =
     Inr \<lparr>results = [], time = 12, knnTime = None, inputSequence = ''ACDEFGHIKL'',
          inputLength = 10\<rparr>"
  by (simp add: predictProtein_example select_between_example searchCandidates_Nil)

text \<open>
  Claim C10. The pipeline calls the exhaustive search without a scan limit, which then
  is 50000: the candidates are the first 50000 entries of the table in storage order,
  and the prediction is the one for the table cut down to these entries.
\<close>

theorem exhaustive_scan_capped:
  assumes "db e = Some table"
  shows "findNearestNeighbors (db e) clk q topN None =
           Inr (searchCandidates (searchEnd clk - searchStart clk) q (take 50000 table)
                  (or_default 5 topN)) \<and>
         length (take 50000 table) \<le> 50000 \<and>
         predictProtein e clk s topN (Some False) =
           predictProtein (e\<lparr>db := Some (take 50000 table)\<rparr>) clk s topN (Some False)"
proof -
  have "findNearestNeighbors (db e) clk q topN None =
      Inr (searchCandidates (searchEnd clk - searchStart clk) q (take 50000 table)
             (or_default 5 topN))" for q
    by (simp add: assms findNearestNeighbors_Some select_limit_def sql_limit_def
        or_default_def)
  moreover have "predictProtein e clk s topN (Some False) =
      predictProtein (e\<lparr>db := Some (take 50000 table)\<rparr>) clk s topN (Some False)"
  proof (cases "scalerSession e")
    case None
    then show ?thesis
      by (simp add: predictProtein_def Let_def)
  next
    case (Some run)
    show ?thesis
    proof (cases "run (extractFeaturesFast s)")
      case (Inl err)
      with Some show ?thesis
        by (simp add: predictProtein_def Let_def)
    next
      case (Inr q)
      have run': "scalerSession (e\<lparr>db := Some (take 50000 table)\<rparr>) = Some run"
        and db': "db (e\<lparr>db := Some (take 50000 table)\<rparr>) = Some (take 50000 table)"
        using Some by simp_all
      show ?thesis
        unfolding predictProtein_run [OF Some Inr assms] predictProtein_run [OF run' Inr db']
        by (simp add: or_default_def select_limit_def sql_limit_def)
    qed
  qed
  ultimately show ?thesis
    by simp
qed

theorem exhaustive_scan_capped_witness:
  "db (example_env (replicate 50001 (example_row 1 ''A'' ''ACDEFGHIKL'' 0))) =
     Some (replicate 50001 (example_row 1 ''A'' ''ACDEFGHIKL'' 0)) \<and>
   findNearestNeighbors (db (example_env (replicate 50001 (example_row 1 ''A'' ''ACDEFGHIKL'' 0))))
       example_clock example_query None None =
     Inr (searchCandidates (searchEnd example_clock - searchStart example_clock) example_query
            (take 50000 (replicate 50001 (example_row 1 ''A'' ''ACDEFGHIKL'' 0)))
            (or_default 5 None)) \<and>
   length (take 50000 (replicate 50001 (example_row 1 ''A'' ''ACDEFGHIKL'' 0))) = 50000"
proof -
  let ?table = "replicate 50001 (example_row 1 ''A'' ''ACDEFGHIKL'' 0)"
  have h: "db (example_env ?table) = Some ?table"
    by (simp add: example_env_def)
  have "length (take 50000 ?table) = 50000"
    by simp
  with h exhaustive_scan_capped [OF h, of example_clock example_query None]
  show ?thesis
    by blast
qed

section \<open>The empty sequence\<close>

lemma api_predict_rejects_empty:
  assumes "cleanSequence toUpperCase s = []"
  shows "\<exists>status err msg. api_predict toUpperCase modelReady e clk (Some s) topN =
           Inl (status, err, msg) \<and> (status = 400 \<or> status = 503)"
  using assms by (simp add: api_predict_def)

text \<open>
  Claim C3, as amended. Feature extraction applied to the empty sequence raises no
  error: it returns the 27 elements \<open>0\<close> and 26 times \<open>NaN\<close>, the value of \<open>0 / 0\<close>. It is
  the request handler that rejects a sequence without a valid symbol, with status 400
  (or 503 while the model is loading), before the pipeline is called.
\<close>

theorem empty_sequence_yields_NaN:
  "extractFeaturesFast [] = Num 0 # replicate 26 NaN \<and>
   (\<forall>toUpperCase modelReady e clk s topN.
      cleanSequence toUpperCase s = [] \<longrightarrow>
      (\<exists>status err msg.
         api_predict toUpperCase modelReady e clk (Some s) topN = Inl (status, err, msg) \<and>
         (status = 400 \<or> status = 503)))"
  using extractFeaturesFast_Nil api_predict_rejects_empty by blast

theorem empty_sequence_yields_NaN_witness:
  "cleanSequence (\<lambda>s. s) ''12 34'' = [] \<and>
   (\<exists>status err msg.
      api_predict (\<lambda>s. s) True (example_env []) example_clock (Some ''12 34'') None =
        Inl (status, err, msg) \<and>
      (status = 400 \<or> status = 503))"
proof -
  have h: "cleanSequence (\<lambda>s. s) ''12 34'' = []"
    by (simp add: cleanSequence_def)
  from empty_sequence_yields_NaN h show ?thesis
    by blast
qed

theorem empty_sequence_counterexample:
  "extractFeaturesFast [] =
     [Num 0, NaN, NaN, NaN, NaN, NaN, NaN, NaN, NaN, NaN, NaN, NaN, NaN, NaN,
      NaN, NaN, NaN, NaN, NaN, NaN, NaN, NaN, NaN, NaN, NaN, NaN, NaN] \<and>
   predictProtein (example_env []) example_clock [] None None =
     Inr \<lparr>results = [], time = 12, knnTime = None, inputSequence = [], inputLength = 0\<rparr>"
proof -
  have "Num 0 # replicate 26 NaN =
     [Num 0, NaN, NaN, NaN, NaN, NaN, NaN, NaN, NaN, NaN, NaN, NaN, NaN, NaN,
      NaN, NaN, NaN, NaN, NaN, NaN, NaN, NaN, NaN, NaN, NaN, NaN, NaN]"
    by (simp add: numeral_eq_Suc)
  then have "extractFeaturesFast [] =
     [Num 0, NaN, NaN, NaN, NaN, NaN, NaN, NaN, NaN, NaN, NaN, NaN, NaN, NaN,
      NaN, NaN, NaN, NaN, NaN, NaN, NaN, NaN, NaN, NaN, NaN, NaN, NaN]"
    by (simp only: extractFeaturesFast_Nil)
  moreover have "predictProtein (example_env []) example_clock [] None None =
     Inr \<lparr>results = [], time = 12, knnTime = None, inputSequence = [], inputLength = 0\<rparr>"
    by (simp add: predictProtein_example select_between_def sql_limit_def searchCandidates_Nil)
  ultimately show ?thesis
    by (rule conjI)
qed

section \<open>The scenarios of the specification\<close>

lemma extractFeaturesFast_scenario:
  "extractFeaturesFast ''ACDEFGHIKLMNPQRSTVWY'' =
     Num (ln 21) # replicate 20 (Num (1 / 20)) @
     [Num (9 / 20), Num (3 / 20), Num (1 / 10), Num (1 / 5), Num (3 / 20), Num (1 / 5)]"
proof -
  have "replicate 20 (Num (1 / 20)) =
      map (\<lambda>aa. js_div_count (count_list ''ACDEFGHIKLMNPQRSTVWY'' aa) 20) aminoAcids"
    by (simp add: aminoAcids_def js_div_count_def numeral_eq_Suc)
  then show ?thesis
    by (simp add: extractFeaturesFast_def Let_def map_aaFraction groupCount_def
        js_div_count_def Math_log1p_def)
qed

lemma search_scenario:
  "map protein
     (searchCandidates t example_query
        [example_row 1 ''A'' ''ACDEFGHIKL'' (3 / 4), example_row 2 ''B'' ''ACDEFGHIKLM'' (1 / 4),
         example_row 3 ''C'' ''ACDEFGHIK'' (1 / 2)] 2) = [''B'', ''C'']"
  by (simp add: searchCandidates_def topResults_def js_sort_def by_distance_def distance_score
      distance_example js_slice0_def js_map_index_def shape_def)
    (simp add: score_def example_row_def)

end
